theory Spec2Isabelle
  imports Complex_Main
begin

section \<open>The LEV longevity engine (lev\_math.ts) over the real numbers\<close>

text \<open>
  The engine of \<^verbatim>\<open>lev_math.ts\<close> computes with JavaScript numbers. Every number of the
  source is modelled as a real, so \<^verbatim>\<open>Math.exp\<close>, \<^verbatim>\<open>Math.log\<close> and \<^verbatim>\<open>Math.sqrt\<close> are the
  exact functions \<open>exp\<close>, \<open>ln\<close> and \<open>sqrt\<close>; rounding error, NaN and the infinities of
  IEEE doubles are outside the model. An array read that yields \<^verbatim>\<open>undefined\<close> in
  JavaScript is \<open>None\<close> here.
\<close>

subsection \<open>0. Constants and configuration\<close>

definition MAX_AGE_INTERNAL :: real where "MAX_AGE_INTERNAL = 200"
definition HEALTH_MIDPOINT_BIOAGE :: real where "HEALTH_MIDPOINT_BIOAGE = 72"
definition HEALTH_STEEPNESS :: real where "HEALTH_STEEPNESS = 9"
definition HEALTHSPAN_THRESHOLD :: real where "HEALTHSPAN_THRESHOLD = 70 / 100"
definition PROGRESS_RATE_BASE :: real where "PROGRESS_RATE_BASE = 18 / 1000"
definition PROGRESS_SIGMA0 :: real where "PROGRESS_SIGMA0 = 30 / 1000"
definition UPTAKE_SIGMOID_WIDTH :: real where "UPTAKE_SIGMOID_WIDTH = 12 / 100"
definition FRAILTY_A :: real where "FRAILTY_A = 65 / 100"
definition LEV_K :: real where "LEV_K = ln 4 / 5"
definition LEV_MEDIAN_95 :: real where "LEV_MEDIAN_95 = 2040"
definition REJUV_TAU :: real where "REJUV_TAU = 6"
definition REJUV_EXTRA :: real where "REJUV_EXTRA = 20 / 100"

text \<open>The quantile table \<^verbatim>\<open>Z_SCORES\<close>, a dictionary from centile to z-score.\<close>

definition Z_SCORES :: "real \<rightharpoonup> real" where
  "Z_SCORES = map_of
     [(5, - 1644853626 / 1000000000),
      (25, - 674489750 / 1000000000),
      (50, 0),
      (75, 674489750 / 1000000000),
      (95, 1644853626 / 1000000000)]"

definition getZScoreForCentile :: "real \<Rightarrow> real" where
  "getZScoreForCentile c = (case Z_SCORES c of Some z \<Rightarrow> z | None \<Rightarrow> 0)"

subsection \<open>1. Utilities\<close>

definition sigmoid :: "real \<Rightarrow> real" where
  "sigmoid x = 1 / (1 + exp (- x))"

definition qToH :: "real \<Rightarrow> real" where
  "qToH q = (if q \<ge> 1 then 100 else - ln (1 - q))"

definition hToQ :: "real \<Rightarrow> real" where
  "hToQ h = 1 - exp (- h)"

subsection \<open>2. Core model functions\<close>

definition getFrailtyMultiplier :: "real \<Rightarrow> real" where
  "getFrailtyMultiplier score = (let p = score / 100 in exp (FRAILTY_A * (1 / 2 - p)))"

definition getUptakeFactor :: "real \<Rightarrow> real" where
  "getUptakeFactor p = 6 / 10 + 8 / 10 * sigmoid ((p - 1 / 2) / UPTAKE_SIGMOID_WIDTH)"

definition optimismFactoryLimited :: "real \<Rightarrow> real" where
  "optimismFactoryLimited opt = max (- 1) (min 1 (opt * (1 / 10)))"

definition getProgressMultiplier ::
  "real \<Rightarrow> real \<Rightarrow> real \<Rightarrow> real \<Rightarrow> real \<Rightarrow> real \<Rightarrow> real" where
  "getProgressMultiplier year score quantileKey optimism horizonYear currentYear =
     (let p = score / 100;
          yH = horizonYear;
          elapsedYears = max 0 (min year yH - currentYear)
      in if elapsedYears \<le> 0 then 1
         else if optimism \<le> - 10 then 1
         else
           (let optimismFactor = optimism * (1 / 10);
                k = PROGRESS_RATE_BASE * (1 + optimismFactor);
                u_p = getUptakeFactor p;
                mu = - k * elapsedYears * u_p;
                sigma = PROGRESS_SIGMA0 * sqrt elapsedYears
                          * (1 - 1 / 10 * optimismFactoryLimited optimism);
                z_q = getZScoreForCentile quantileKey;
                r = exp (mu + z_q * sigma)
            in min (120 / 100) (max (1 / 100) r)))"

subsection \<open>6. LEV parameters and probability mass function\<close>

record LevParams =
  medianYear :: real
  probMass :: "real list"

text \<open>
  The locals \<^verbatim>\<open>shift\<close>, \<^verbatim>\<open>speedFactor\<close> and \<^verbatim>\<open>baseDelay95\<close> of
  \<^verbatim>\<open>computeLevDistribution\<close>, each as a function of the argument it is computed from.
\<close>

definition lev_shift :: "real \<Rightarrow> real" where
  "lev_shift targetScore =
     (if targetScore \<ge> 95 then 0
      else if targetScore \<ge> 75 then
        (let t = (targetScore - 75) / (95 - 75) in 9 * (1 - t))
      else if targetScore \<ge> 50 then
        (let t = (targetScore - 50) / (75 - 50) in 15 - (15 - 9) * t)
      else
        (let s = max 1 targetScore;
             t = (s - 1) / (50 - 1)
         in 60 - (60 - 15) * t))"

definition lev_speedFactor :: "real \<Rightarrow> real" where
  "lev_speedFactor optimism =
     (let speedFactor = 1 + 1 / 10 * optimism
      in if speedFactor \<le> 1 / 100 then 1 / 1000 else speedFactor)"

definition lev_baseDelay95 :: "real \<Rightarrow> real" where
  "lev_baseDelay95 currentYear = max 0 (LEV_MEDIAN_95 - currentYear)"

text \<open>The logistic distribution function evaluated twice in the loop body.\<close>

definition lev_cdf :: "real \<Rightarrow> real \<Rightarrow> real" where
  "lev_cdf m t = 1 / (1 + exp (- LEV_K * (t - m)))"

text \<open>
  The loop \<^verbatim>\<open>for (let y = currentYear; y <= maxEvalYear; y++)\<close>; \<^verbatim>\<open>push\<close> appends.
\<close>

function lev_pmf_loop :: "real \<Rightarrow> real \<Rightarrow> real \<Rightarrow> real list \<Rightarrow> real list" where
  "lev_pmf_loop m maxEvalYear y acc =
     (if y \<le> maxEvalYear then
        (let cdfCurrent = lev_cdf m y;
             cdfPrev = lev_cdf m (y - 1)
         in lev_pmf_loop m maxEvalYear (y + 1) (acc @ [cdfCurrent - cdfPrev]))
      else acc)"
  by pat_completeness auto
termination
  by (relation "measure (\<lambda>(m, maxEvalYear, y, acc). nat \<lceil>maxEvalYear - y + 1\<rceil>)")
     (simp_all add: algebra_simps, linarith)

definition computeLevDistribution :: "real \<Rightarrow> real \<Rightarrow> real \<Rightarrow> LevParams" where
  "computeLevDistribution targetScore optimism currentYear =
     (if optimism \<le> - 10 then \<lparr>medianYear = 9999, probMass = []\<rparr>
      else
        (let shift = lev_shift targetScore;
             speedFactor = lev_speedFactor optimism;
             baseDelay95 = lev_baseDelay95 currentYear;
             totalBaseDelay = baseDelay95 + shift;
             adjustedDelay = totalBaseDelay / speedFactor;
             m = currentYear + adjustedDelay;
             maxEvalYear = currentYear + 120
         in \<lparr>medianYear = m, probMass = lev_pmf_loop m maxEvalYear currentYear []\<rparr>))"

subsection \<open>7. Pace of aging\<close>

text \<open>\<^verbatim>\<open>Math.round\<close> rounds half up, as \<open>round\<close> does: \<open>round x = \<lfloor>x + 1/2\<rfloor>\<close>.\<close>

definition getPaceOfAging ::
  "real \<Rightarrow> real \<Rightarrow> real \<Rightarrow> real \<Rightarrow> real \<Rightarrow> real \<Rightarrow> real \<Rightarrow> real" where
  "getPaceOfAging year score quantileKey optimism horizonYear currentYear levMedianYear =
     (let yLEV = real_of_int (round levMedianYear);
          pTarget = score;
          zScoreVal = getFrailtyMultiplier pTarget;
          r_q = getProgressMultiplier year pTarget quantileKey optimism horizonYear currentYear;
          r_lev_median = getProgressMultiplier yLEV pTarget 50 optimism horizonYear currentYear;
          paceBaseAtLev = zScoreVal * r_lev_median;
          lambda = paceBaseAtLev + REJUV_EXTRA;
          L = (if year \<ge> yLEV \<and> optimism > - 10
               then lambda * (1 - exp (- (year - yLEV) / REJUV_TAU))
               else 0);
          paceValid = zScoreVal * r_q - L
      in min 2 (max (- (50 / 100)) paceValid))"

subsection \<open>8. Health index\<close>

definition bioAgeToHealth :: "real \<Rightarrow> real" where
  "bioAgeToHealth bioAge = 1 / (1 + exp ((bioAge - HEALTH_MIDPOINT_BIOAGE) / HEALTH_STEEPNESS))"

subsection \<open>The life table (lev\_data\_loader.ts) and JavaScript array reads\<close>

text \<open>
  The type \<^verbatim>\<open>LifeTable\<close>. Its field \<^verbatim>\<open>year\<close> is \<open>table_year\<close> here, since \<open>year\<close> names an
  argument of the functions above.
\<close>

record LifeTable =
  ages :: "real list"
  qx :: "real list"
  source :: string
  table_year :: real

text \<open>
  \<^verbatim>\<open>arr[i]\<close> is \<^verbatim>\<open>undefined\<close> unless \<^verbatim>\<open>i\<close> is an integer with \<^verbatim>\<open>0 <= i < arr.length\<close>.
  The index is itself optional: \<open>None\<close> is the NaN that \<^verbatim>\<open>Math.min\<close> returns when one
  of its arguments is \<^verbatim>\<open>undefined\<close>.
\<close>

definition js_index :: "real list \<Rightarrow> real option \<Rightarrow> real option" where
  "js_index arr i =
     (case i of
        None \<Rightarrow> None
      | Some x \<Rightarrow>
          (if 0 \<le> x \<and> x = real_of_int \<lfloor>x\<rfloor> \<and> nat \<lfloor>x\<rfloor> < length arr
           then Some (arr ! nat \<lfloor>x\<rfloor>) else None))"

text \<open>\<^verbatim>\<open>lifeTable.ages[lifeTable.ages.length - 1]\<close>: undefined for an empty table.\<close>

definition last_age :: "LifeTable \<Rightarrow> real option" where
  "last_age lifeTable = (if ages lifeTable = [] then None else Some (last (ages lifeTable)))"

definition js_min :: "real \<Rightarrow> real option \<Rightarrow> real option" where
  "js_min x y = (case y of None \<Rightarrow> None | Some v \<Rightarrow> Some (min x v))"

text \<open>\<^verbatim>\<open>a ?? d\<close>: the default replaces \<^verbatim>\<open>undefined\<close>.\<close>

definition js_default :: "real option \<Rightarrow> real \<Rightarrow> real" where
  "js_default v d = (case v of None \<Rightarrow> d | Some x \<Rightarrow> x)"

subsection \<open>9. Cohort generation\<close>

datatype sex = male | female

record SimulationResult =
  survival :: "real list"
  annualSurvival :: "real list"
  bioAge :: "real list"
  health :: "real list"
  aliveHealthy :: "real list"
  pace :: "real list"
  lifeExpectancy :: real
  healthExpectancy :: real
  isIndefinite :: bool

text \<open>
  The mutable locals of \<^verbatim>\<open>simulateCohort\<close>: the running survival \<^verbatim>\<open>S\<close>, the biological
  age \<^verbatim>\<open>B\<close> and the six arrays that the loop pushes to.
\<close>

record CohortState =
  st_S :: real
  st_B :: real
  st_survival :: "real list"
  st_annualSurvival :: "real list"
  st_bioAge :: "real list"
  st_health :: "real list"
  st_aliveHealthy :: "real list"
  st_paceArray :: "real list"

text \<open>One iteration of the loop over ages, at age \<open>a\<close>.\<close>

definition cohort_body ::
  "real \<Rightarrow> real \<Rightarrow> real \<Rightarrow> real \<Rightarrow> real \<Rightarrow> LifeTable \<Rightarrow> real \<Rightarrow> bool \<Rightarrow> real \<Rightarrow> real
     \<Rightarrow> real \<Rightarrow> CohortState \<Rightarrow> CohortState" where
  "cohort_body startAge startScore targetScore horizonYear optimism lifeTable currentYear
       isProtocol progressQuantile levMedian a st =
     (let year = currentYear + (a - startAge);
          effectiveScore =
            (if isProtocol \<and> (year - currentYear) < 10
             then (let t = (year - currentYear) / 10
                   in startScore + (targetScore - startScore) * t)
             else if isProtocol then targetScore else startScore);
          p = (if isProtocol
               then getPaceOfAging year effectiveScore progressQuantile optimism horizonYear
                      currentYear levMedian
               else (let zScore = getFrailtyMultiplier effectiveScore;
                         r = getProgressMultiplier year effectiveScore 50 optimism horizonYear
                               currentYear
                     in zScore * r));
          ageIdx = max 0 (real_of_int \<lfloor>st_B st\<rfloor>);
          tableIdx = js_min ageIdx (last_age lifeTable);
          qBase = js_default (js_index (qx lifeTable) tableIdx) (99 / 100);
          h0 = qToH qBase;
          zScore = getFrailtyMultiplier effectiveScore;
          mult =
            (if isProtocol
             then (let r = getProgressMultiplier year effectiveScore progressQuantile optimism
                             horizonYear currentYear;
                       mult = zScore * r
                   in if p < 0 then mult * exp (2 * p) else mult)
             else (let r = getProgressMultiplier year effectiveScore 50 optimism horizonYear
                             currentYear
                   in zScore * r));
          hFinal = h0 * max (5 / 100) (min (25 / 10) mult);
          qFinal = min (999 / 1000) (hToQ hFinal);
          S = st_S st * (1 - qFinal);
          B = st_B st + p;
          H = bioAgeToHealth B
      in \<lparr>st_S = S,
          st_B = B,
          st_survival = st_survival st @ [S],
          st_annualSurvival = st_annualSurvival st @ [1 - qFinal],
          st_bioAge = st_bioAge st @ [B],
          st_health = st_health st @ [H],
          st_aliveHealthy = st_aliveHealthy st @ [S * H],
          st_paceArray = st_paceArray st @ [p]\<rparr>)"

text \<open>The loop \<^verbatim>\<open>for (let a = startAge; a < MAX_AGE_INTERNAL; a++)\<close> around a body.\<close>

function cohort_loop ::
  "(real \<Rightarrow> CohortState \<Rightarrow> CohortState) \<Rightarrow> real \<Rightarrow> CohortState \<Rightarrow> CohortState" where
  "cohort_loop body a st =
     (if a < MAX_AGE_INTERNAL then cohort_loop body (a + 1) (body a st) else st)"
  by pat_completeness auto
termination
  by (relation "measure (\<lambda>(body, a, st). nat \<lceil>MAX_AGE_INTERNAL - a\<rceil>)")
     (simp_all add: algebra_simps, linarith)

text \<open>
  The arguments \<^verbatim>\<open>_sex\<close> of \<^verbatim>\<open>simulateCohort\<close> and \<^verbatim>\<open>_userAge\<close>, \<^verbatim>\<open>_horizonYear\<close> and
  \<^verbatim>\<open>_lifeTable\<close> of \<^verbatim>\<open>calculateLevProb\<close> are never read; they carry the prefix
  \<open>unused\<close> here.
\<close>

definition simulateCohort ::
  "real \<Rightarrow> sex \<Rightarrow> real \<Rightarrow> real \<Rightarrow> real \<Rightarrow> real \<Rightarrow> LifeTable \<Rightarrow> real \<Rightarrow> bool \<Rightarrow> real
     \<Rightarrow> SimulationResult" where
  "simulateCohort startAge unused_sex startScore targetScore horizonYear optimism lifeTable
       currentYear isProtocol progressQuantile =
     (let S = 1;
          B = startAge * getFrailtyMultiplier startScore;
          levMedian =
            (if isProtocol
             then medianYear (computeLevDistribution targetScore optimism currentYear)
             else 0);
          initialPace =
            (if isProtocol
             then getPaceOfAging currentYear targetScore progressQuantile optimism horizonYear
                    currentYear levMedian
             else getFrailtyMultiplier startScore
                    * getProgressMultiplier currentYear startScore 50 optimism horizonYear
                        currentYear);
          idx0 = js_min startAge (last_age lifeTable);
          q0 = js_default (js_index (qx lifeTable) idx0) (1 / 1000);
          st0 = \<lparr>st_S = S,
                 st_B = B,
                 st_survival = [S],
                 st_annualSurvival = [1 - q0],
                 st_bioAge = [B],
                 st_health = [bioAgeToHealth B],
                 st_aliveHealthy = [S * bioAgeToHealth B],
                 st_paceArray = [initialPace]\<rparr>;
          st = cohort_loop
                 (cohort_body startAge startScore targetScore horizonYear optimism lifeTable
                    currentYear isProtocol progressQuantile levMedian)
                 startAge st0;
          sumS = foldl (\<lambda>acc val. acc + val) 0 (st_survival st);
          lifeExpectancy = sumS - 1 / 2;
          sumSH = foldl
                    (\<lambda>acc idx.
                       if st_health st ! idx \<ge> HEALTHSPAN_THRESHOLD
                       then acc + st_survival st ! idx else acc)
                    0 [0 ..< length (st_aliveHealthy st)];
          healthExpectancy = sumSH - 1 / 2;
          lastPace = last (st_paceArray st);
          isIndefinite = (isProtocol \<and> (lastPace < - (1 / 10) \<and> last (st_survival st) > 1 / 100))
      in \<lparr>survival = st_survival st,
          annualSurvival = st_annualSurvival st,
          bioAge = st_bioAge st,
          health = st_health st,
          aliveHealthy = st_aliveHealthy st,
          pace = st_paceArray st,
          lifeExpectancy = lifeExpectancy,
          healthExpectancy = healthExpectancy,
          isIndefinite = isIndefinite\<rparr>)"

subsection \<open>10. Probability of achieving LEV\<close>

text \<open>
  The loop \<^verbatim>\<open>for (let i = 0; i < probMass.length; i++)\<close>, adding a term only while
  \<^verbatim>\<open>i < refSurvival.length\<close>.
\<close>

function levprob_loop :: "real list \<Rightarrow> real list \<Rightarrow> nat \<Rightarrow> real \<Rightarrow> real" where
  "levprob_loop probMass' refSurvival i pAchieve =
     (if i < length probMass' then
        (let pmf = probMass' ! i
         in levprob_loop probMass' refSurvival (Suc i)
              (if i < length refSurvival then pAchieve + refSurvival ! i * pmf else pAchieve))
      else pAchieve)"
  by pat_completeness auto
termination
  by (relation "measure (\<lambda>(probMass', refSurvival, i, pAchieve). length probMass' - i)") auto

definition calculateLevProb ::
  "real \<Rightarrow> real \<Rightarrow> real \<Rightarrow> real \<Rightarrow> LifeTable \<Rightarrow> real \<Rightarrow> real list \<Rightarrow> real" where
  "calculateLevProb unused_userAge score optimism unused_horizonYear unused_lifeTable currentYear refSurvival =
     (let pm = probMass (computeLevDistribution score optimism currentYear);
          pAchieve = levprob_loop pm refSurvival 0 0;
          pAchieve = pAchieve * (90 / 100)
      in if score < 20
         then (let penalty = (score / 20) ^ 2 in pAchieve * penalty)
         else pAchieve)"

subsection \<open>Auxiliary definitions for the proofs\<close>

text \<open>
  The exponent \<^verbatim>\<open>mu + z_q * sigma\<close> of \<^verbatim>\<open>getProgressMultiplier\<close>, as a function of the
  elapsed years, the uptake factor, the z-score and the optimism.
\<close>

definition progress_exponent :: "real \<Rightarrow> real \<Rightarrow> real \<Rightarrow> real \<Rightarrow> real" where
  "progress_exponent e u z opt =
     - (PROGRESS_RATE_BASE * (1 + opt * (1 / 10))) * e * u
     + z * (PROGRESS_SIGMA0 * sqrt e * (1 - 1 / 10 * optimismFactoryLimited opt))"

text \<open>
  Invariants of the loop of \<^verbatim>\<open>simulateCohort\<close>: the survival array ends with the running
  survival \<^verbatim>\<open>S\<close>, starts at 1 and descends; the pace array stays in \<open>[-1/2, 2]\<close>.
\<close>

definition survival_inv :: "CohortState \<Rightarrow> bool" where
  "survival_inv s \<longleftrightarrow>
     st_survival s \<noteq> [] \<and> last (st_survival s) = st_S s \<and> 0 \<le> st_S s
     \<and> st_survival s ! 0 = 1
     \<and> (\<forall>i. Suc i < length (st_survival s) \<longrightarrow> st_survival s ! Suc i \<le> st_survival s ! i)"

definition pace_inv :: "CohortState \<Rightarrow> bool" where
  "pace_inv s \<longleftrightarrow> (\<forall>p \<in> set (st_paceArray s). - (1 / 2) \<le> p \<and> p \<le> 2)"

text \<open>A three-row life table for the concrete instances below.\<close>

definition demoTable :: LifeTable where
  "demoTable = \<lparr>ages = [0, 1, 2], qx = [6 / 1000, 4 / 10000, 3 / 10000],
      source = ''demo'', table_year = 2021\<rparr>"

section \<open>Properties\<close>

declare lev_pmf_loop.simps [simp del]
declare levprob_loop.simps [simp del]
declare cohort_loop.simps [simp del]

subsection \<open>The probability mass function of the LEV year\<close>

lemma lev_pmf_loop_unfold:
  "lev_pmf_loop m (y + real n) y acc
     = acc @ map (\<lambda>i. lev_cdf m (y + real i) - lev_cdf m (y + real i - 1)) [0 ..< Suc n]"
proof (induction n arbitrary: y acc)
  case 0
  show ?case
    by (simp add: lev_pmf_loop.simps [of m y y] lev_pmf_loop.simps [of m y "y + 1"] Let_def)
next
  case (Suc n)
  have shift: "y + real (Suc n) = (y + 1) + real n" by simp
  have "lev_pmf_loop m (y + real (Suc n)) y acc
          = lev_pmf_loop m ((y + 1) + real n) (y + 1) (acc @ [lev_cdf m y - lev_cdf m (y - 1)])"
    by (subst lev_pmf_loop.simps) (simp add: Let_def shift del: of_nat_Suc)
  also have "\<dots> = (acc @ [lev_cdf m y - lev_cdf m (y - 1)])
      @ map (\<lambda>i. lev_cdf m ((y + 1) + real i) - lev_cdf m ((y + 1) + real i - 1)) [0 ..< Suc n]"
    by (rule Suc.IH)
  also have "\<dots> = acc
      @ map (\<lambda>i. lev_cdf m (y + real i) - lev_cdf m (y + real i - 1)) [0 ..< Suc (Suc n)]"
    by (simp add: map_upt_Suc [of _ "Suc n"] add.commute add.left_commute del: upt_Suc)
  finally show ?case .
qed

lemma lev_mass_telescope:
  "sum_list (map (\<lambda>i. lev_cdf m (y + real i) - lev_cdf m (y + real i - 1)) [0 ..< Suc n])
     = lev_cdf m (y + real n) - lev_cdf m (y - 1)"
  by (induction n) (simp_all add: algebra_simps)

lemma probMass_eq:
  assumes "- 10 < optimism"
  shows "probMass (computeLevDistribution targetScore optimism currentYear)
     = map (\<lambda>i. lev_cdf (medianYear (computeLevDistribution targetScore optimism currentYear))
                   (currentYear + real i)
                 - lev_cdf (medianYear (computeLevDistribution targetScore optimism currentYear))
                   (currentYear + real i - 1)) [0 ..< 121]"
proof -
  have n: "(120::real) = real (120::nat)" "(121::nat) = Suc 120" by simp_all
  show ?thesis
    using assms
    unfolding computeLevDistribution_def Let_def n
    by (simp only: lev_pmf_loop_unfold) (simp del: upt_Suc of_nat_numeral)
qed

lemma probMass_length:
  "- 10 < optimism \<Longrightarrow> length (probMass (computeLevDistribution targetScore optimism currentYear)) = 121"
  by (simp add: probMass_eq)

lemma probMass_sum:
  assumes "- 10 < optimism"
  shows "sum_list (probMass (computeLevDistribution targetScore optimism currentYear))
     = lev_cdf (medianYear (computeLevDistribution targetScore optimism currentYear)) (currentYear + 120)
       - lev_cdf (medianYear (computeLevDistribution targetScore optimism currentYear)) (currentYear - 1)"
proof -
  have n: "(121::nat) = Suc 120" by simp
  show ?thesis
    unfolding probMass_eq [OF assms] n lev_mass_telescope by simp
qed

lemma LEV_K_pos: "0 < LEV_K"
  by (simp add: LEV_K_def)

lemma exp_LEV_K_mult: "exp (LEV_K * (5 * real n)) = 4 ^ n"
proof -
  have "exp (LEV_K * (5 * real n)) = exp (real n * ln 4)"
    by (simp add: LEV_K_def)
  also have "\<dots> = exp (ln 4) ^ n"
    by (rule exp_of_nat_mult)
  finally show ?thesis by simp
qed

lemma exp_LEV_K_20: "exp (LEV_K * 20) = 256"
  using exp_LEV_K_mult [of 4] by simp

lemma exp_LEV_K_30: "exp (LEV_K * 30) = 4096"
  using exp_LEV_K_mult [of 6] by simp

lemma lev_cdf_pos: "0 < lev_cdf m t"
  by (simp add: lev_cdf_def add_pos_pos)

lemma lev_cdf_less_1: "lev_cdf m t < 1"
  by (simp add: lev_cdf_def add_pos_pos)

lemma lev_cdf_mono: "t \<le> t' \<Longrightarrow> lev_cdf m t \<le> lev_cdf m t'"
  using LEV_K_pos
  by (simp add: lev_cdf_def frac_le add_pos_pos mult_left_mono)

lemma lev_cdf_strict_mono: "t < t' \<Longrightarrow> lev_cdf m t < lev_cdf m t'"
  using LEV_K_pos
  by (simp add: lev_cdf_def frac_less2 add_pos_pos)

lemma lev_cdf_at_plus_30: "lev_cdf m (m + 30) = 4096 / 4097"
proof -
  have "exp (- (LEV_K * 30)) = 1 / 4096"
    by (simp add: exp_minus exp_LEV_K_30)
  then have "lev_cdf m (m + 30) = 1 / (1 + 1 / 4096)"
    by (simp only: lev_cdf_def minus_mult_left [symmetric] add_diff_cancel_left')
  then show ?thesis by simp
qed

lemma lev_cdf_at_minus_30: "lev_cdf m (m - 30) = 1 / 4097"
  by (simp add: lev_cdf_def exp_LEV_K_30)

lemma lev_cdf_at_minus_20: "lev_cdf m (m - 20) = 1 / 257"
  by (simp add: lev_cdf_def exp_LEV_K_20)

lemma lev_window_mass:
  assumes "y + 29 \<le> m" and "m \<le> y + 90"
  shows "\<bar>(lev_cdf m (y + 120) - lev_cdf m (y - 1)) - 1\<bar> \<le> 1 / 1000"
proof -
  have hi: "4096 / 4097 \<le> lev_cdf m (y + 120)"
    using lev_cdf_mono [of "m + 30" "y + 120" m] assms by (simp add: lev_cdf_at_plus_30)
  have lo: "lev_cdf m (y - 1) \<le> 1 / 4097"
    using lev_cdf_mono [of "y - 1" "m - 30" m] assms by (simp add: lev_cdf_at_minus_30)
  have "lev_cdf m (y + 120) < 1"
    by (rule lev_cdf_less_1)
  moreover have "0 < lev_cdf m (y - 1)"
    by (rule lev_cdf_pos)
  ultimately show ?thesis
    using hi lo by (simp add: abs_le_iff)
qed

lemma medianYear_scenario_B: "medianYear (computeLevDistribution 50 0 2024) = 2055"
  by (simp add: lev_shift_def lev_baseDelay95_def lev_speedFactor_def LEV_MEDIAN_95_def
      computeLevDistribution_def Let_def)

lemma medianYear_scenario_A: "medianYear (computeLevDistribution 95 0 2024) = 2040"
  by (simp add: lev_shift_def lev_baseDelay95_def lev_speedFactor_def LEV_MEDIAN_95_def
      computeLevDistribution_def Let_def)

text \<open>
  Claim C1, as amended. For every optimism above \<open>-10\<close>, every target score and every
  current year, \<^verbatim>\<open>probMass\<close> has 121 entries, and they sum to the logistic mass of the
  window, \<open>F (currentYear + 120) - F (currentYear - 1)\<close> for the distribution function \<open>F\<close>
  centred at the returned median year. That sum lies strictly between 0 and 1. It is within
  \<open>1/1000\<close> of 1 whenever the median year lies between 29 and 90 years after the current
  year; the code does not renormalise the mass that falls outside the window.
\<close>

theorem C1_window_mass:
  assumes "- 10 < optimism"
  shows "(let lp = computeLevDistribution targetScore optimism currentYear;
              m = medianYear lp;
              total = sum_list (probMass lp)
          in length (probMass lp) = 121
             \<and> total = lev_cdf m (currentYear + 120) - lev_cdf m (currentYear - 1)
             \<and> 0 < total \<and> total < 1
             \<and> (currentYear + 29 \<le> m \<and> m \<le> currentYear + 90 \<longrightarrow> \<bar>total - 1\<bar> \<le> 1 / 1000))"
proof -
  let ?lp = "computeLevDistribution targetScore optimism currentYear"
  let ?m = "medianYear ?lp"
  have len: "length (probMass ?lp) = 121"
    using assms by (rule probMass_length)
  have tot: "sum_list (probMass ?lp) = lev_cdf ?m (currentYear + 120) - lev_cdf ?m (currentYear - 1)"
    using assms by (rule probMass_sum)
  have pos: "0 < lev_cdf ?m (currentYear + 120) - lev_cdf ?m (currentYear - 1)"
    using lev_cdf_strict_mono [of "currentYear - 1" "currentYear + 120" ?m] by simp
  have lt1: "lev_cdf ?m (currentYear + 120) - lev_cdf ?m (currentYear - 1) < 1"
    using lev_cdf_less_1 [of ?m "currentYear + 120"] lev_cdf_pos [of ?m "currentYear - 1"]
    by linarith
  have near: "currentYear + 29 \<le> ?m \<and> ?m \<le> currentYear + 90 \<longrightarrow>
      \<bar>(lev_cdf ?m (currentYear + 120) - lev_cdf ?m (currentYear - 1)) - 1\<bar> \<le> 1 / 1000"
    using lev_window_mass [of currentYear ?m] by blast
  show ?thesis
    unfolding Let_def tot using len pos lt1 near by blast
qed

text \<open>
  The amended C1 at scenario B (target score 50, optimism 0, year 2024): the median year
  2055 lies 31 years ahead, so the 121 entries sum to 1 within \<open>1/1000\<close>.
\<close>

theorem C1_window_mass_witness:
  "(- 10 :: real) < 0
   \<and> (2024 + 29 \<le> medianYear (computeLevDistribution 50 0 2024)
        \<and> medianYear (computeLevDistribution 50 0 2024) \<le> 2024 + 90)
   \<and> length (probMass (computeLevDistribution 50 0 2024)) = 121
   \<and> \<bar>sum_list (probMass (computeLevDistribution 50 0 2024)) - 1\<bar> \<le> 1 / 1000"
proof -
  have h: "(- 10 :: real) < 0" by simp
  have "length (probMass (computeLevDistribution 50 0 2024)) = 121
      \<and> (2024 + 29 \<le> medianYear (computeLevDistribution 50 0 2024)
            \<and> medianYear (computeLevDistribution 50 0 2024) \<le> 2024 + 90
          \<longrightarrow> \<bar>sum_list (probMass (computeLevDistribution 50 0 2024)) - 1\<bar> \<le> 1 / 1000)"
    using C1_window_mass [of 0 50 2024, OF h] unfolding Let_def by blast
  moreover have "2024 + 29 \<le> medianYear (computeLevDistribution 50 0 2024)
      \<and> medianYear (computeLevDistribution 50 0 2024) \<le> 2024 + 90"
    by (simp add: medianYear_scenario_B)
  ultimately show ?thesis using h by simp
qed

text \<open>
  Claim C1 as stated fails at scenario A (target score 95, optimism 0, year 2024): the median
  year is 2040, the mass before 2024 is more than \<open>1/257\<close>, and the entries sum to less
  than \<open>0.999\<close>.
\<close>

theorem C1_counterexample:
  "\<not> (length (probMass (computeLevDistribution 95 0 2024)) = 121
       \<and> \<bar>sum_list (probMass (computeLevDistribution 95 0 2024)) - 1\<bar> \<le> 1 / 1000)"
proof -
  have tot: "sum_list (probMass (computeLevDistribution 95 0 2024))
      = lev_cdf 2040 2144 - lev_cdf 2040 2023"
    using probMass_sum [of 0 95 2024] by (simp add: medianYear_scenario_A)
  have "lev_cdf 2040 (2040 - 20) \<le> lev_cdf 2040 2023"
    by (rule lev_cdf_mono) simp
  then have lo: "1 / 257 \<le> lev_cdf 2040 2023"
    by (simp only: lev_cdf_at_minus_20)
  have hi: "lev_cdf 2040 2144 < 1"
    by (rule lev_cdf_less_1)
  show ?thesis
    unfolding tot using lo hi by (simp add: abs_le_iff)
qed

text \<open>
  Claim C9. At current year 2024, target score 50 and optimism 0 the shift is 15, the base
  delay is 16, the speed factor is 1 and the returned median year is 2055.
\<close>

theorem C9_scenario_B:
  "lev_shift 50 = 15
     \<and> lev_baseDelay95 2024 = 16
     \<and> lev_speedFactor 0 = 1
     \<and> medianYear (computeLevDistribution 50 0 2024) = 2055"
  by (simp add: lev_shift_def lev_baseDelay95_def lev_speedFactor_def LEV_MEDIAN_95_def
      computeLevDistribution_def Let_def)

subsection \<open>The probability of achieving LEV\<close>

lemma levprob_loop_sum:
  "levprob_loop pm rs i acc
     = acc + (\<Sum>j = i ..< length pm. if j < length rs then rs ! j * pm ! j else 0)"
proof (induction pm rs i acc rule: levprob_loop.induct)
  case (1 pm rs i acc)
  show ?case
  proof (cases "i < length pm")
    case True
    then show ?thesis
      using "1.IH" [OF True refl]
      by (subst levprob_loop.simps) (simp add: Let_def sum.atLeast_Suc_lessThan)
  next
    case False
    then show ?thesis
      by (subst levprob_loop.simps) simp
  qed
qed

lemma weighted_sum_bounds:
  fixes pm rs :: "real list"
  assumes pm: "\<forall>j < length pm. 0 \<le> pm ! j"
    and rs: "\<forall>s \<in> set rs. 0 \<le> s \<and> s \<le> 1"
  shows "0 \<le> (\<Sum>j = 0 ..< length pm. if j < length rs then rs ! j * pm ! j else 0)"
    and "(\<Sum>j = 0 ..< length pm. if j < length rs then rs ! j * pm ! j else 0) \<le> sum_list pm"
proof -
  have tm: "0 \<le> (if j < length rs then rs ! j * pm ! j else 0)
      \<and> (if j < length rs then rs ! j * pm ! j else 0) \<le> pm ! j"
    if "j < length pm" for j
  proof (cases "j < length rs")
    case True
    then have "0 \<le> rs ! j" "rs ! j \<le> 1"
      using rs nth_mem by blast+
    moreover have "0 \<le> pm ! j"
      using pm that by blast
    ultimately have "0 \<le> rs ! j * pm ! j \<and> rs ! j * pm ! j \<le> 1 * pm ! j"
      using mult_nonneg_nonneg [of "rs ! j" "pm ! j"] mult_right_mono [of "rs ! j" 1 "pm ! j"]
      by blast
    then show ?thesis
      using True by simp
  next
    case False
    then show ?thesis using pm that by simp
  qed
  show "0 \<le> (\<Sum>j = 0 ..< length pm. if j < length rs then rs ! j * pm ! j else 0)"
    by (rule sum_nonneg) (simp add: tm)
  have "(\<Sum>j = 0 ..< length pm. if j < length rs then rs ! j * pm ! j else 0)
      \<le> (\<Sum>j = 0 ..< length pm. pm ! j)"
    by (rule sum_mono) (simp add: tm)
  then show "(\<Sum>j = 0 ..< length pm. if j < length rs then rs ! j * pm ! j else 0) \<le> sum_list pm"
    by (simp add: sum_list_sum_nth)
qed

lemma probMass_nonneg:
  "\<forall>j < length (probMass (computeLevDistribution targetScore optimism currentYear)).
     0 \<le> probMass (computeLevDistribution targetScore optimism currentYear) ! j"
proof (cases "optimism \<le> - 10")
  case True
  then show ?thesis by (simp add: computeLevDistribution_def)
next
  case False
  then have opt: "- 10 < optimism" by simp
  show ?thesis
    unfolding probMass_eq [OF opt]
    using lev_cdf_mono [of "currentYear + real j - 1" "currentYear + real j" for j]
    by (auto simp del: upt_Suc)
qed

lemma probMass_sum_le_1:
  "sum_list (probMass (computeLevDistribution targetScore optimism currentYear)) \<le> 1"
proof (cases "optimism \<le> - 10")
  case True
  then show ?thesis by (simp add: computeLevDistribution_def)
next
  case False
  then have opt: "- 10 < optimism" by simp
  show ?thesis
    unfolding probMass_sum [OF opt]
    using lev_cdf_less_1 [of "medianYear (computeLevDistribution targetScore optimism currentYear)"
        "currentYear + 120"]
      lev_cdf_pos [of "medianYear (computeLevDistribution targetScore optimism currentYear)"
        "currentYear - 1"]
    by linarith
qed

lemma calculateLevProb_eq:
  "calculateLevProb userAge score optimism horizonYear lifeTable currentYear refSurvival
     = (\<Sum>j = 0 ..< length (probMass (computeLevDistribution score optimism currentYear)).
          if j < length refSurvival
          then refSurvival ! j * probMass (computeLevDistribution score optimism currentYear) ! j
          else 0)
       * (90 / 100) * (if score < 20 then (score / 20) ^ 2 else 1)"
  by (simp add: calculateLevProb_def levprob_loop_sum Let_def)

lemma penalty_range:
  fixes score :: real
  assumes "- 20 \<le> score"
  shows "0 \<le> (if score < 20 then (score / 20) ^ 2 else 1)"
    and "(if score < 20 then (score / 20) ^ 2 else 1) \<le> 1"
proof -
  show "0 \<le> (if score < 20 then (score / 20) ^ 2 else 1)"
    by simp
  show "(if score < 20 then (score / 20) ^ 2 else 1) \<le> 1"
  proof (cases "score < 20")
    case True
    then have "\<bar>score / 20\<bar> \<le> \<bar>1\<bar>"
      using assms by (simp add: abs_le_iff)
    then have "(score / 20) ^ 2 \<le> 1 ^ 2"
      by (simp only: abs_le_square_iff)
    then show ?thesis using True by simp
  next
    case False
    then show ?thesis by simp
  qed
qed

text \<open>
  The penalty \<open>(score/20)\<^sup>2\<close> is at most 1 from score \<open>-20\<close> upwards, so the bound on
  \<^verbatim>\<open>calculateLevProb\<close> holds there, below the documented scores 1..99 as well.
\<close>

lemma calculateLevProb_range:
  assumes surv: "\<forall>s \<in> set refSurvival. 0 \<le> s \<and> s \<le> 1"
    and score: "- 20 \<le> score"
  shows "calculateLevProb userAge score optimism horizonYear lifeTable currentYear refSurvival
       = (\<Sum>j = 0 ..< length (probMass (computeLevDistribution score optimism currentYear)).
            if j < length refSurvival
            then refSurvival ! j * probMass (computeLevDistribution score optimism currentYear) ! j
            else 0)
         * (90 / 100) * (if score < 20 then (score / 20) ^ 2 else 1)
     \<and> 0 \<le> calculateLevProb userAge score optimism horizonYear lifeTable currentYear refSurvival
     \<and> calculateLevProb userAge score optimism horizonYear lifeTable currentYear refSurvival
         \<le> 90 / 100"
proof -
  let ?pm = "probMass (computeLevDistribution score optimism currentYear)"
  define W where
    "W = (\<Sum>j = 0 ..< length ?pm. if j < length refSurvival then refSurvival ! j * ?pm ! j else 0)"
  define P where "P = (if score < 20 then (score / 20) ^ 2 else (1::real))"
  have eq: "calculateLevProb userAge score optimism horizonYear lifeTable currentYear refSurvival
      = W * (90 / 100) * P"
    unfolding W_def P_def by (rule calculateLevProb_eq)
  have W0: "0 \<le> W"
    unfolding W_def using probMass_nonneg surv by (rule weighted_sum_bounds(1))
  have "W \<le> sum_list ?pm"
    unfolding W_def using probMass_nonneg surv by (rule weighted_sum_bounds(2))
  then have W1: "W \<le> 1"
    using probMass_sum_le_1 [of score optimism currentYear] by linarith
  have P0: "0 \<le> P" and P1: "P \<le> 1"
    unfolding P_def using penalty_range [OF score] by blast+
  have lo: "0 \<le> W * (90 / 100) * P"
    using W0 P0 by simp
  have "W * P \<le> 1 * 1"
    using W0 W1 P0 P1 by (intro mult_mono) simp_all
  then have hi: "W * (90 / 100) * P \<le> 90 / 100"
    by (simp add: mult.commute)
  show ?thesis
    using eq lo hi unfolding W_def P_def by presburger
qed

text \<open>
  Claim C2. For every score of the documented range 1..99, every optimism and current year
  and every reference survival with entries in \<open>[0, 1]\<close>, \<^verbatim>\<open>calculateLevProb\<close> returns the
  survival-weighted sum over the LEV probability mass, times the cap \<open>0.90\<close>, times the
  penalty \<open>(score/20)\<^sup>2\<close> when the score is below 20; the result lies in \<open>[0, 0.90]\<close>.
\<close>

theorem C2_levprob_range:
  assumes surv: "\<forall>s \<in> set refSurvival. 0 \<le> s \<and> s \<le> 1"
    and score: "1 \<le> score" "score \<le> 99"
  shows "calculateLevProb userAge score optimism horizonYear lifeTable currentYear refSurvival
       = (\<Sum>j = 0 ..< length (probMass (computeLevDistribution score optimism currentYear)).
            if j < length refSurvival
            then refSurvival ! j * probMass (computeLevDistribution score optimism currentYear) ! j
            else 0)
         * (90 / 100) * (if score < 20 then (score / 20) ^ 2 else 1)
     \<and> 0 \<le> calculateLevProb userAge score optimism horizonYear lifeTable currentYear refSurvival
     \<and> calculateLevProb userAge score optimism horizonYear lifeTable currentYear refSurvival
         \<le> 90 / 100"
proof -
  have "- 20 \<le> score"
    using score(1) by simp
  with surv show ?thesis
    by (rule calculateLevProb_range)
qed

text \<open>
  Claim C2 at score 10, where the penalty \<open>(10/20)\<^sup>2\<close> applies, with the reference survival
  \<open>[1, 1/2]\<close>.
\<close>

theorem C2_levprob_range_witness:
  "0 \<le> calculateLevProb 35 10 0 2050 demoTable 2024 [1, 1 / 2]
   \<and> calculateLevProb 35 10 0 2050 demoTable 2024 [1, 1 / 2] \<le> 90 / 100"
proof -
  have surv: "\<forall>s \<in> set [1, 1 / 2 :: real]. 0 \<le> s \<and> s \<le> 1" by simp
  have lo: "(1::real) \<le> 10" and hi: "(10::real) \<le> 99" by simp_all
  show ?thesis
    using C2_levprob_range [OF surv lo hi, of 35 0 2050 demoTable 2024] by blast
qed

text \<open>
  Claim C10. \<^verbatim>\<open>calculateLevProb\<close> depends only on its score, optimism, current year and
  reference survival: two calls that differ in the user age, the horizon year and the life
  table return the same value.
\<close>

theorem C10_ignored_arguments:
  "calculateLevProb userAge1 score optimism horizonYear1 lifeTable1 currentYear refSurvival
     = calculateLevProb userAge2 score optimism horizonYear2 lifeTable2 currentYear refSurvival"
  by (simp add: calculateLevProb_def)

subsection \<open>Hazard conversion\<close>

text \<open>
  Claim C7. For every \<open>q\<close> in \<open>[0, 1)\<close>, \<^verbatim>\<open>hToQ(qToH(q))\<close> is \<open>q\<close> exactly over the
  reals; \<^verbatim>\<open>qToH\<close> returns \<open>- ln (1 - q)\<close> there and the constant 100 for every argument of
  at least 1, and \<^verbatim>\<open>hToQ(h)\<close> is \<open>1 - exp (- h)\<close>. The rounding of IEEE doubles is not
  part of this model.
\<close>

theorem C7_hazard_round_trip:
  "0 \<le> q \<Longrightarrow> q < 1 \<Longrightarrow>
     hToQ (qToH q) = q
     \<and> qToH q = - ln (1 - q)
     \<and> (\<forall>q' \<ge> 1. qToH q' = 100)
     \<and> (\<forall>h. hToQ h = 1 - exp (- h))"
  by (simp add: hToQ_def qToH_def)

text \<open>Claim C7 at \<open>q = 1/2\<close>, and the constant branch at \<open>q = 1\<close>.\<close>

theorem C7_hazard_round_trip_witness:
  "(0::real) \<le> 1 / 2 \<and> (1 / 2 :: real) < 1 \<and> hToQ (qToH (1 / 2)) = 1 / 2 \<and> qToH 1 = 100"
  using C7_hazard_round_trip [of "1 / 2"] by simp

lemma qToH_nonneg: "0 \<le> q \<Longrightarrow> 0 \<le> qToH q"
  by (simp add: qToH_def)

lemma hToQ_range: "0 \<le> h \<Longrightarrow> 0 \<le> hToQ h \<and> hToQ h < 1"
  by (simp add: hToQ_def)

subsection \<open>The progress multiplier\<close>

lemma sigmoid_pos: "0 < sigmoid x"
  by (simp add: sigmoid_def add_pos_pos)

lemma uptake_lower: "6 / 10 < getUptakeFactor p"
  using sigmoid_pos [of "(p - 1 / 2) / UPTAKE_SIGMOID_WIDTH"]
  by (simp add: getUptakeFactor_def)

lemma uptake_at_median: "getUptakeFactor (1 / 2) = 1"
  by (simp add: getUptakeFactor_def sigmoid_def)

lemma zscore_lower: "- 1644853626 / 1000000000 \<le> getZScoreForCentile c"
  by (simp add: getZScoreForCentile_def Z_SCORES_def)

lemma zscore_50: "getZScoreForCentile 50 = 0"
  by (simp add: getZScoreForCentile_def Z_SCORES_def)

lemma zscore_95: "getZScoreForCentile 95 = 1644853626 / 1000000000"
  by (simp add: getZScoreForCentile_def Z_SCORES_def)

lemma optimismFactoryLimited_id:
  "- 10 \<le> opt \<Longrightarrow> opt \<le> 10 \<Longrightarrow> optimismFactoryLimited opt = opt / 10"
  by (simp add: optimismFactoryLimited_def)

lemma getProgressMultiplier_idle:
  "min year horizonYear - currentYear \<le> 0 \<Longrightarrow>
     getProgressMultiplier year score quantileKey optimism horizonYear currentYear = 1"
  by (simp add: getProgressMultiplier_def Let_def)

lemma getProgressMultiplier_active:
  assumes "0 < min year horizonYear - currentYear" and "- 10 < optimism"
  shows "getProgressMultiplier year score quantileKey optimism horizonYear currentYear
     = min (120 / 100) (max (1 / 100)
         (exp (progress_exponent (min year horizonYear - currentYear)
                 (getUptakeFactor (score / 100)) (getZScoreForCentile quantileKey) optimism)))"
proof -
  have m: "max 0 (min year horizonYear - currentYear) = min year horizonYear - currentYear"
    using assms(1) by simp
  have n: "\<not> min year horizonYear - currentYear \<le> 0"
    using assms(1) by linarith
  have o: "\<not> optimism \<le> - 10"
    using assms(2) by simp
  show ?thesis
    unfolding getProgressMultiplier_def Let_def m progress_exponent_def
    by (simp only: n o if_False)
qed

lemma getProgressMultiplier_range:
  "1 / 100 \<le> getProgressMultiplier year score quantileKey optimism horizonYear currentYear
   \<and> getProgressMultiplier year score quantileKey optimism horizonYear currentYear \<le> 120 / 100"
proof (cases "0 < min year horizonYear - currentYear \<and> - 10 < optimism")
  case True
  then have e: "0 < min year horizonYear - currentYear" and opt: "- 10 < optimism"
    by blast+
  show ?thesis
    unfolding getProgressMultiplier_active [OF e opt] by linarith
next
  case False
  then have "getProgressMultiplier year score quantileKey optimism horizonYear currentYear = 1"
    by (auto simp: getProgressMultiplier_def Let_def)
  then show ?thesis by simp
qed

lemma progress_exponent_diff:
  assumes "- 10 \<le> o1" "o1 \<le> 10" "- 10 \<le> o2" "o2 \<le> 10"
  shows "progress_exponent e u z o1 - progress_exponent e u z o2
     = (o2 - o1) * (18 / 10000 * (e * u) + 3 / 10000 * (z * sqrt e))"
  unfolding progress_exponent_def optimismFactoryLimited_id [OF assms(1,2)]
    optimismFactoryLimited_id [OF assms(3,4)] PROGRESS_RATE_BASE_def PROGRESS_SIGMA0_def
  by (simp add: field_simps)

lemma progress_slope_nonneg:
  assumes e: "0 < e" and u: "6 / 10 < u" and z: "- 1644853626 / 1000000000 \<le> z"
    and cond: "0 \<le> z \<or> 1 \<le> e"
  shows "0 \<le> 18 / 10000 * (e * u) + 3 / 10000 * (z * sqrt e)"
proof (cases "0 \<le> z")
  case True
  have "0 \<le> e * u" using e u by simp
  moreover have "0 \<le> z * sqrt e" using True e by simp
  ultimately show ?thesis by simp
next
  case False
  then have e1: "1 \<le> e" and zneg: "z \<le> 0" using cond by simp_all
  have "1 \<le> sqrt e"
    using e1 by simp
  then have "sqrt e * 1 \<le> sqrt e * sqrt e"
    by (intro mult_left_mono) simp_all
  then have "sqrt e \<le> e"
    using e by simp
  then have a: "z * e \<le> z * sqrt e"
    using zneg by (rule mult_left_mono_neg)
  have b: "(- 1644853626 / 1000000000) * e \<le> z * e"
    using z e by (intro mult_right_mono) simp_all
  have c: "e * (6 / 10) \<le> e * u"
    using e u by (intro mult_left_mono) simp_all
  show ?thesis
    using a b c e by linarith
qed

lemma clamp_mono:
  fixes a b :: real
  shows "a \<le> b \<Longrightarrow> min (120 / 100) (max (1 / 100) a) \<le> min (120 / 100) (max (1 / 100) b)"
  by linarith

lemma elapsed_integer:
  assumes "year \<in> \<int>" "horizonYear \<in> \<int>" "currentYear \<in> \<int>"
    and "0 < min year horizonYear - (currentYear :: real)"
  shows "1 \<le> min year horizonYear - currentYear"
proof -
  obtain a b c :: int where
    abc: "year = of_int a" "horizonYear = of_int b" "currentYear = of_int c"
    using assms(1-3) by (auto elim!: Ints_cases)
  have eq: "min year horizonYear - currentYear = of_int (min a b - c)"
    by (simp add: abc of_int_min)
  then have "0 < min a b - c"
    using assms(4) by (simp only: of_int_0_less_iff)
  then have "1 \<le> min a b - c" by linarith
  then have "(1::real) \<le> of_int (min a b - c)"
    by (simp only: of_int_1_le_iff)
  then show ?thesis by (simp only: eq)
qed

lemma progress_exponent_nonpos:
  assumes e: "0 < e" and u: "6 / 10 < u" and z: "z \<le> 0" and opt: "- 10 < opt"
  shows "progress_exponent e u z opt \<le> 0"
proof -
  have k: "0 \<le> PROGRESS_RATE_BASE * (1 + opt * (1 / 10))"
    using opt by (simp add: PROGRESS_RATE_BASE_def)
  have "0 \<le> PROGRESS_RATE_BASE * (1 + opt * (1 / 10)) * e * u"
    using k e u by simp
  moreover have "0 \<le> 1 - 1 / 10 * optimismFactoryLimited opt"
    by (simp add: optimismFactoryLimited_def)
  then have sg: "0 \<le> PROGRESS_SIGMA0 * sqrt e * (1 - 1 / 10 * optimismFactoryLimited opt)"
    using e by (simp add: PROGRESS_SIGMA0_def)
  have "z * (PROGRESS_SIGMA0 * sqrt e * (1 - 1 / 10 * optimismFactoryLimited opt)) \<le> 0"
    using z sg by (rule mult_nonpos_nonneg)
  ultimately show ?thesis
    unfolding progress_exponent_def by (simp add: algebra_simps)
qed

lemma getProgressMultiplier_le_1:
  assumes "getZScoreForCentile quantileKey \<le> 0"
  shows "getProgressMultiplier year score quantileKey optimism horizonYear currentYear \<le> 1"
proof (cases "0 < min year horizonYear - currentYear \<and> - 10 < optimism")
  case True
  then have e: "0 < min year horizonYear - currentYear" and opt: "- 10 < optimism"
    by blast+
  have "progress_exponent (min year horizonYear - currentYear)
      (getUptakeFactor (score / 100)) (getZScoreForCentile quantileKey) optimism \<le> 0"
    using e uptake_lower assms opt by (rule progress_exponent_nonpos)
  then have "exp (progress_exponent (min year horizonYear - currentYear)
      (getUptakeFactor (score / 100)) (getZScoreForCentile quantileKey) optimism) \<le> 1"
    by simp
  then show ?thesis
    unfolding getProgressMultiplier_active [OF e opt] by linarith
next
  case False
  then show ?thesis
    by (auto simp: getProgressMultiplier_def Let_def)
qed

text \<open>
  Claim C4. With optimism at most \<open>-10\<close>, \<^verbatim>\<open>getProgressMultiplier\<close> returns exactly 1
  for every year, score, quantile key, horizon year and current year, and
  \<^verbatim>\<open>computeLevDistribution\<close> returns the median year 9999 with an empty \<^verbatim>\<open>probMass\<close> for
  every target score and current year.
\<close>

theorem C4_no_progress:
  "optimism \<le> - 10 \<Longrightarrow>
     getProgressMultiplier year score quantileKey optimism horizonYear currentYear = 1
     \<and> computeLevDistribution targetScore optimism currentYear'
         = \<lparr>medianYear = 9999, probMass = []\<rparr>"
  by (simp add: getProgressMultiplier_def computeLevDistribution_def Let_def)

text \<open>Claim C4 at optimism \<open>-10\<close>.\<close>

theorem C4_no_progress_witness:
  "(- 10 :: real) \<le> - 10
     \<and> getProgressMultiplier 2030 50 95 (- 10) 2050 2024 = 1
     \<and> computeLevDistribution 75 (- 10) 2024 = \<lparr>medianYear = 9999, probMass = []\<rparr>"
  using C4_no_progress [of "- 10" 2030 50 95 2050 2024 75 2024] by simp

text \<open>
  Claim C5, as amended. For integer years and a fixed score and quantile key, the output of
  \<^verbatim>\<open>getProgressMultiplier\<close> is non-increasing as optimism increases: over the whole range
  \<open>-10..5\<close> when the z-score of the quantile key is at most 0 (keys 5, 25, 50 and unknown
  keys), and over \<open>-9..5\<close> (every optimism above \<open>-10\<close>) for every quantile key. More
  optimism gives a smaller hazard multiplier.
\<close>

theorem C5_progress_antitone:
  assumes years: "year \<in> \<int>" "horizonYear \<in> \<int>" "currentYear \<in> \<int>"
    and range: "- 10 \<le> o1" "o1 \<le> o2" "o2 \<le> 5"
    and lock: "- 10 < o1 \<or> getZScoreForCentile quantileKey \<le> 0"
  shows "getProgressMultiplier year score quantileKey o2 horizonYear currentYear
     \<le> getProgressMultiplier year score quantileKey o1 horizonYear currentYear"
proof (cases "0 < min year horizonYear - currentYear")
  case False
  then have "min year horizonYear - currentYear \<le> 0" by linarith
  then show ?thesis
    by (simp only: getProgressMultiplier_idle)
next
  case True
  note e = True
  show ?thesis
  proof (cases "- 10 < o1")
    case False
    then have o1: "o1 \<le> - 10" and z: "getZScoreForCentile quantileKey \<le> 0"
      using lock by simp_all
    have "getProgressMultiplier year score quantileKey o1 horizonYear currentYear = 1"
      using o1 by (simp add: getProgressMultiplier_def Let_def)
    then show ?thesis
      using getProgressMultiplier_le_1 [OF z, of year score o2 horizonYear currentYear]
      by simp
  next
    case True
    then have o2: "- 10 < o2" using range by simp
    have e1: "1 \<le> min year horizonYear - currentYear"
      using years e by (rule elapsed_integer)
    have slope: "0 \<le> 18 / 10000 * ((min year horizonYear - currentYear)
          * getUptakeFactor (score / 100))
        + 3 / 10000 * (getZScoreForCentile quantileKey * sqrt (min year horizonYear - currentYear))"
      using e uptake_lower zscore_lower e1 by (intro progress_slope_nonneg) simp_all
    have "progress_exponent (min year horizonYear - currentYear)
          (getUptakeFactor (score / 100)) (getZScoreForCentile quantileKey) o1
        - progress_exponent (min year horizonYear - currentYear)
          (getUptakeFactor (score / 100)) (getZScoreForCentile quantileKey) o2
        = (o2 - o1) * (18 / 10000 * ((min year horizonYear - currentYear)
              * getUptakeFactor (score / 100))
            + 3 / 10000 * (getZScoreForCentile quantileKey
              * sqrt (min year horizonYear - currentYear)))"
      using range True o2 by (intro progress_exponent_diff) simp_all
    moreover have "0 \<le> (o2 - o1) * (18 / 10000 * ((min year horizonYear - currentYear)
              * getUptakeFactor (score / 100))
            + 3 / 10000 * (getZScoreForCentile quantileKey
              * sqrt (min year horizonYear - currentYear)))"
      using range slope by (intro mult_nonneg_nonneg) simp_all
    ultimately have "progress_exponent (min year horizonYear - currentYear)
          (getUptakeFactor (score / 100)) (getZScoreForCentile quantileKey) o2
        \<le> progress_exponent (min year horizonYear - currentYear)
          (getUptakeFactor (score / 100)) (getZScoreForCentile quantileKey) o1"
      by linarith
    then have "exp (progress_exponent (min year horizonYear - currentYear)
          (getUptakeFactor (score / 100)) (getZScoreForCentile quantileKey) o2)
        \<le> exp (progress_exponent (min year horizonYear - currentYear)
          (getUptakeFactor (score / 100)) (getZScoreForCentile quantileKey) o1)"
      by simp
    then show ?thesis
      unfolding getProgressMultiplier_active [OF e True] getProgressMultiplier_active [OF e o2]
      by (rule clamp_mono)
  qed
qed

text \<open>The amended C5 at the year 2030, between optimism 0 and optimism 5.\<close>

theorem C5_progress_antitone_witness:
  "getProgressMultiplier 2030 50 50 5 2050 2024 \<le> getProgressMultiplier 2030 50 50 0 2050 2024"
  by (rule C5_progress_antitone) simp_all

lemma progress_2025_median:
  assumes "- 10 < opt"
  shows "getProgressMultiplier 2025 50 50 opt 2050 2024
    = min (120 / 100) (max (1 / 100) (exp (- (18 / 1000 * (1 + opt / 10)))))"
proof -
  have e: "0 < min 2025 2050 - (2024::real)" by simp
  have "progress_exponent (min 2025 2050 - 2024) (getUptakeFactor (50 / 100))
      (getZScoreForCentile 50) opt = - (18 / 1000 * (1 + opt / 10))"
    by (simp add: progress_exponent_def uptake_at_median zscore_50 PROGRESS_RATE_BASE_def)
  then show ?thesis
    unfolding getProgressMultiplier_active [OF e assms] by simp
qed

text \<open>
  Claim C5 as stated (non-decreasing) fails one year ahead at score 50 and quantile 50: the
  multiplier is \<open>exp (-0.018)\<close> at optimism 0 and the smaller \<open>exp (-0.027)\<close> at optimism 5.
\<close>

theorem C5_counterexample:
  "\<not> (getProgressMultiplier 2025 50 50 0 2050 2024 \<le> getProgressMultiplier 2025 50 50 5 2050 2024)"
proof -
  have lo0: "1 / 100 \<le> exp (- (18 / 1000 :: real))"
    using exp_ge_add_one_self [of "- (18 / 1000 :: real)"] by simp
  have "exp (- (18 / 1000 :: real)) \<le> 1"
    by (simp only: exp_le_one_iff)
  then have hi0: "exp (- (18 / 1000 :: real)) \<le> 120 / 100"
    by linarith
  have g0: "getProgressMultiplier 2025 50 50 0 2050 2024 = exp (- (18 / 1000))"
    using lo0 hi0 by (simp add: progress_2025_median)
  have lo5: "1 / 100 \<le> exp (- (27 / 1000 :: real))"
    using exp_ge_add_one_self [of "- (27 / 1000 :: real)"] by simp
  have "exp (- (27 / 1000 :: real)) \<le> 1"
    by (simp only: exp_le_one_iff)
  then have hi5: "exp (- (27 / 1000 :: real)) \<le> 120 / 100"
    by linarith
  have g5: "getProgressMultiplier 2025 50 50 5 2050 2024 = exp (- (27 / 1000))"
    using lo5 hi5 by (simp add: progress_2025_median)
  show ?thesis
    unfolding g0 g5 by simp
qed

text \<open>
  At quantile 95 the output is not monotone over the whole range: the hard lock at optimism
  \<open>-10\<close> returns 1, and optimism \<open>-9\<close> returns more than 1 one year ahead.
\<close>

lemma progress_rises_off_hard_lock:
  "getProgressMultiplier 2025 50 95 (- 10) 2050 2024
     < getProgressMultiplier 2025 50 95 (- 9) 2050 2024"
proof -
  have e: "0 < min 2025 2050 - (2024::real)" by simp
  have opt: "(- 10 :: real) < - 9" by simp
  have lock: "getProgressMultiplier 2025 50 95 (- 10) 2050 2024 = 1"
    by (simp add: getProgressMultiplier_def Let_def)
  have "0 < progress_exponent (min 2025 2050 - 2024) (getUptakeFactor (50 / 100))
      (getZScoreForCentile 95) (- 9)"
    by (simp add: progress_exponent_def uptake_at_median zscore_95 PROGRESS_RATE_BASE_def
        PROGRESS_SIGMA0_def optimismFactoryLimited_def)
  then have "1 < exp (progress_exponent (min 2025 2050 - 2024) (getUptakeFactor (50 / 100))
      (getZScoreForCentile 95) (- 9))"
    by simp
  then show ?thesis
    unfolding lock getProgressMultiplier_active [OF e opt] by linarith
qed

subsection \<open>The pace of aging\<close>

lemma getFrailtyMultiplier_pos: "0 < getFrailtyMultiplier score"
  by (simp add: getFrailtyMultiplier_def)

lemma getFrailtyMultiplier_upper:
  assumes "1 \<le> score"
  shows "getFrailtyMultiplier score \<le> 5 / 3"
proof -
  have "FRAILTY_A * (1 / 2 - score / 100) \<le> 3185 / 10000"
    using assms by (simp add: FRAILTY_A_def)
  then have le: "getFrailtyMultiplier score \<le> exp (3185 / 10000)"
    by (simp add: getFrailtyMultiplier_def)
  have "1 + - (3185 / 10000) \<le> exp (- (3185 / 10000 :: real))"
    by (rule exp_ge_add_one_self)
  then have "6815 / 10000 \<le> inverse (exp (3185 / 10000 :: real))"
    by (simp add: exp_minus)
  then have "exp (3185 / 10000 :: real) * (6815 / 10000) \<le> 1"
    by (simp add: field_simps)
  then have "exp (3185 / 10000 :: real) \<le> 5 / 3"
    by linarith
  with le show ?thesis by linarith
qed

lemma getPaceOfAging_range:
  "- (1 / 2) \<le> getPaceOfAging year score quantileKey optimism horizonYear currentYear levMedianYear
   \<and> getPaceOfAging year score quantileKey optimism horizonYear currentYear levMedianYear \<le> 2"
  by (simp add: getPaceOfAging_def Let_def)

lemma base_pace_range:
  assumes "1 \<le> score"
  shows "- (1 / 2) \<le> getFrailtyMultiplier score
            * getProgressMultiplier year score quantileKey optimism horizonYear currentYear
   \<and> getFrailtyMultiplier score
         * getProgressMultiplier year score quantileKey optimism horizonYear currentYear \<le> 2"
proof -
  define z where "z = getFrailtyMultiplier score"
  define r where "r = getProgressMultiplier year score quantileKey optimism horizonYear currentYear"
  have z: "0 < z" "z \<le> 5 / 3"
    unfolding z_def using getFrailtyMultiplier_pos getFrailtyMultiplier_upper [OF assms] by simp_all
  have r: "1 / 100 \<le> r" "r \<le> 120 / 100"
    unfolding r_def using getProgressMultiplier_range by simp_all
  have "0 \<le> z * r"
    using z r by simp
  moreover have "z * r \<le> (5 / 3) * (120 / 100)"
    using z r by (intro mult_mono) simp_all
  ultimately show ?thesis
    unfolding z_def r_def by simp
qed

text \<open>
  Claim C8. In \<^verbatim>\<open>getPaceOfAging\<close> the rejuvenation pull \<open>L\<close> is computed from the progress
  multiplier of quantile 50 at the rounded LEV median year and does not depend on the
  quantile key: for two quantile keys and otherwise equal arguments, both results are the
  clamp to \<open>[-0.50, 2.00]\<close> of \<open>z * r_q - L\<close> with the same \<open>L\<close>, where
  \<open>L = lambda * (1 - exp (- (year - yLEV) / REJUV_TAU))\<close> when \<open>year \<ge> yLEV\<close> and
  \<open>optimism > -10\<close>, and \<open>L = 0\<close> otherwise.
\<close>

theorem C8_median_anchored_pull:
  "(let yLEV = real_of_int (round levMedianYear);
        z = getFrailtyMultiplier score;
        lambda = z * getProgressMultiplier yLEV score 50 optimism horizonYear currentYear
                   + REJUV_EXTRA;
        L = (if year \<ge> yLEV \<and> optimism > - 10
             then lambda * (1 - exp (- (year - yLEV) / REJUV_TAU)) else 0)
    in getPaceOfAging year score q1 optimism horizonYear currentYear levMedianYear
         = min 2 (max (- (1 / 2))
             (z * getProgressMultiplier year score q1 optimism horizonYear currentYear - L))
       \<and> getPaceOfAging year score q2 optimism horizonYear currentYear levMedianYear
         = min 2 (max (- (1 / 2))
             (z * getProgressMultiplier year score q2 optimism horizonYear currentYear - L)))"
  by (simp add: getPaceOfAging_def Let_def)

subsection \<open>The cohort simulation\<close>

lemma cohort_loop_invariant:
  assumes step: "\<And>a s. P s \<Longrightarrow> P (body a s)" and init: "P st"
  shows "P (cohort_loop body a st)"
  using step init
proof (induction body a st rule: cohort_loop.induct)
  case (1 body a st)
  show ?case
  proof (cases "a < MAX_AGE_INTERNAL")
    case True
    have "P (body a st)"
      using "1.prems"(2) by (rule "1.prems"(1))
    with True have "P (cohort_loop body (a + 1) (body a st))"
      using "1.prems"(1) by (intro "1.IH") 
    then show ?thesis
      using True by (subst cohort_loop.simps) simp
  next
    case False
    then show ?thesis
      using "1.prems"(2) by (subst cohort_loop.simps) simp
  qed
qed

lemma js_index_in_set: "js_index arr i = Some v \<Longrightarrow> v \<in> set arr"
  by (auto simp: js_index_def split: option.splits if_splits)

lemma js_default_nonneg:
  assumes "\<forall>q \<in> set arr. 0 \<le> q \<and> q \<le> 1" and "0 \<le> d"
  shows "0 \<le> js_default (js_index arr i) d"
proof (cases "js_index arr i")
  case None
  then show ?thesis using assms(2) by (simp add: js_default_def)
next
  case (Some v)
  then have "v \<in> set arr" by (rule js_index_in_set)
  then show ?thesis using assms(1) Some by (simp add: js_default_def)
qed

lemma survival_step_range:
  assumes S: "0 \<le> S" and qb: "0 \<le> qBase"
  shows "0 \<le> S * (1 - min (999 / 1000) (hToQ (qToH qBase * max (5 / 100) (min (25 / 10) mult))))
    \<and> S * (1 - min (999 / 1000) (hToQ (qToH qBase * max (5 / 100) (min (25 / 10) mult)))) \<le> S"
proof -
  define q where "q = min (999 / 1000) (hToQ (qToH qBase * max (5 / 100) (min (25 / 10) mult)))"
  have "0 \<le> qToH qBase * max (5 / 100) (min (25 / 10) mult)"
    using qToH_nonneg [OF qb] by (intro mult_nonneg_nonneg) simp_all
  then have "0 \<le> hToQ (qToH qBase * max (5 / 100) (min (25 / 10) mult))"
    using hToQ_range by blast
  then have q: "0 \<le> q" "q \<le> 1"
    unfolding q_def by simp_all
  have "0 \<le> S * (1 - q)"
    using S q by simp
  moreover have "S * (1 - q) \<le> S * 1"
    using S q by (intro mult_left_mono) simp_all
  ultimately show ?thesis
    unfolding q_def by simp
qed

lemma cohort_body_survival:
  "st_survival (cohort_body startAge startScore targetScore horizonYear optimism lifeTable
       currentYear isProtocol progressQuantile levMedian a st)
     = st_survival st @ [st_S (cohort_body startAge startScore targetScore horizonYear optimism
         lifeTable currentYear isProtocol progressQuantile levMedian a st)]"
  unfolding cohort_body_def Let_def CohortState.select_convs
  by (rule refl)

lemma cohort_body_S_range:
  assumes valid: "\<forall>q \<in> set (qx lifeTable). 0 \<le> q \<and> q \<le> 1" and S: "0 \<le> st_S st"
  shows "0 \<le> st_S (cohort_body startAge startScore targetScore horizonYear optimism lifeTable
       currentYear isProtocol progressQuantile levMedian a st)
    \<and> st_S (cohort_body startAge startScore targetScore horizonYear optimism lifeTable
       currentYear isProtocol progressQuantile levMedian a st) \<le> st_S st"
  unfolding cohort_body_def Let_def CohortState.select_convs
proof (rule survival_step_range)
  show "0 \<le> st_S st" by (rule S)
  show "0 \<le> js_default (js_index (qx lifeTable)
      (js_min (max 0 (real_of_int \<lfloor>st_B st\<rfloor>)) (last_age lifeTable))) (99 / 100)"
    using valid by (rule js_default_nonneg) simp
qed

lemma append_keeps_descending:
  fixes xs :: "real list"
  assumes ne: "xs \<noteq> []" and y: "y \<le> last xs"
    and desc: "\<forall>i. Suc i < length xs \<longrightarrow> xs ! Suc i \<le> xs ! i"
  shows "\<forall>i. Suc i < length (xs @ [y]) \<longrightarrow> (xs @ [y]) ! Suc i \<le> (xs @ [y]) ! i"
proof (intro allI impI)
  fix i
  assume i: "Suc i < length (xs @ [y])"
  show "(xs @ [y]) ! Suc i \<le> (xs @ [y]) ! i"
  proof (cases "Suc i < length xs")
    case True
    then show ?thesis using desc by (simp add: nth_append)
  next
    case False
    then have len: "Suc i = length xs" using i by simp
    then have "i = length xs - 1" by simp
    then have "xs ! i = last xs"
      using ne by (simp add: last_conv_nth)
    then show ?thesis
      using len y by (simp add: nth_append)
  qed
qed

lemma cohort_body_survival_inv:
  assumes valid: "\<forall>q \<in> set (qx lifeTable). 0 \<le> q \<and> q \<le> 1" and inv: "survival_inv s"
  shows "survival_inv (cohort_body startAge startScore targetScore horizonYear optimism lifeTable
       currentYear isProtocol progressQuantile levMedian a s)"
proof -
  let ?s' = "cohort_body startAge startScore targetScore horizonYear optimism lifeTable
       currentYear isProtocol progressQuantile levMedian a s"
  have ne: "st_survival s \<noteq> []" and lst: "last (st_survival s) = st_S s"
    and S: "0 \<le> st_S s" and hd1: "st_survival s ! 0 = 1"
    and desc: "\<forall>i. Suc i < length (st_survival s) \<longrightarrow> st_survival s ! Suc i \<le> st_survival s ! i"
    using inv by (simp_all add: survival_inv_def)
  have sv: "st_survival ?s' = st_survival s @ [st_S ?s']"
    by (rule cohort_body_survival)
  have rng: "0 \<le> st_S ?s' \<and> st_S ?s' \<le> st_S s"
    using valid S by (rule cohort_body_S_range)
  have "\<forall>i. Suc i < length (st_survival s @ [st_S ?s'])
      \<longrightarrow> (st_survival s @ [st_S ?s']) ! Suc i \<le> (st_survival s @ [st_S ?s']) ! i"
    using ne _ desc by (rule append_keeps_descending) (simp add: lst rng)
  moreover have "(st_survival s @ [st_S ?s']) ! 0 = 1"
    using ne hd1 by (simp add: nth_append)
  ultimately show ?thesis
    unfolding survival_inv_def sv using rng by simp
qed

lemma survival_inv_result:
  "survival_inv s \<Longrightarrow>
     st_survival s ! 0 = 1
     \<and> (\<forall>i. Suc i < length (st_survival s) \<longrightarrow> st_survival s ! Suc i \<le> st_survival s ! i)"
  by (simp add: survival_inv_def)

lemma demoTable_valid: "\<forall>q \<in> set (qx demoTable). 0 \<le> q \<and> q \<le> 1"
  by (simp add: demoTable_def)

lemma cohort_loop_runs_once:
  assumes "a < MAX_AGE_INTERNAL"
  shows "Suc (length (st_survival st))
     \<le> length (st_survival (cohort_loop
          (cohort_body startAge startScore targetScore horizonYear optimism lifeTable
             currentYear isProtocol progressQuantile levMedian) a st))"
proof -
  let ?body = "cohort_body startAge startScore targetScore horizonYear optimism lifeTable
             currentYear isProtocol progressQuantile levMedian"
  have "Suc (length (st_survival st)) \<le> length (st_survival (cohort_loop ?body (a + 1) (?body a st)))"
  proof (rule cohort_loop_invariant)
    fix b and s :: CohortState
    assume "Suc (length (st_survival st)) \<le> length (st_survival s)"
    then show "Suc (length (st_survival st)) \<le> length (st_survival (?body b s))"
      by (simp add: cohort_body_survival)
  next
    show "Suc (length (st_survival st)) \<le> length (st_survival (?body a st))"
      by (simp add: cohort_body_survival)
  qed
  then show ?thesis
    using assms by (subst cohort_loop.simps) simp
qed

lemma simulateCohort_two_entries:
  assumes "startAge < MAX_AGE_INTERNAL"
  shows "Suc 0 < length (survival (simulateCohort startAge sx startScore targetScore horizonYear
      optimism lifeTable currentYear isProtocol progressQuantile))"
  unfolding simulateCohort_def Let_def SimulationResult.select_convs
  using cohort_loop_runs_once [OF assms] 
  by (rule less_le_trans [rotated]) simp

text \<open>
  Claim C3. For every life table with death probabilities in \<open>[0, 1]\<close> (and every score,
  optimism and other argument), the survival sequence returned by \<^verbatim>\<open>simulateCohort\<close> starts
  at 1 and is non-increasing: each entry is at most the entry before it.
\<close>

theorem C3_survival_non_increasing:
  assumes valid: "\<forall>q \<in> set (qx lifeTable). 0 \<le> q \<and> q \<le> 1"
  shows "survival (simulateCohort startAge sx startScore targetScore horizonYear optimism
             lifeTable currentYear isProtocol progressQuantile) ! 0 = 1
     \<and> (\<forall>i. Suc i < length (survival (simulateCohort startAge sx startScore targetScore
                  horizonYear optimism lifeTable currentYear isProtocol progressQuantile))
          \<longrightarrow> survival (simulateCohort startAge sx startScore targetScore horizonYear optimism
                  lifeTable currentYear isProtocol progressQuantile) ! Suc i
              \<le> survival (simulateCohort startAge sx startScore targetScore horizonYear optimism
                  lifeTable currentYear isProtocol progressQuantile) ! i)"
  unfolding simulateCohort_def Let_def SimulationResult.select_convs
proof (rule survival_inv_result, rule cohort_loop_invariant)
  fix a s
  assume "survival_inv s"
  with valid show "survival_inv (cohort_body startAge startScore targetScore horizonYear optimism
      lifeTable currentYear isProtocol progressQuantile
      (if isProtocol then medianYear (computeLevDistribution targetScore optimism currentYear)
       else 0) a s)"
    by (rule cohort_body_survival_inv)
next
  show "survival_inv
     \<lparr>st_S = 1, st_B = startAge * getFrailtyMultiplier startScore, st_survival = [1],
        st_annualSurvival =
          [1 - js_default (js_index (qx lifeTable) (js_min startAge (last_age lifeTable)))
                 (1 / 1000)],
        st_bioAge = [startAge * getFrailtyMultiplier startScore],
        st_health = [bioAgeToHealth (startAge * getFrailtyMultiplier startScore)],
        st_aliveHealthy = [1 * bioAgeToHealth (startAge * getFrailtyMultiplier startScore)],
        st_paceArray =
          [if isProtocol
           then getPaceOfAging currentYear targetScore progressQuantile optimism horizonYear
                  currentYear
                  (if isProtocol
                   then medianYear (computeLevDistribution targetScore optimism currentYear)
                   else 0)
           else getFrailtyMultiplier startScore
                  * getProgressMultiplier currentYear startScore 50 optimism horizonYear
                      currentYear]\<rparr>"
    by (simp add: survival_inv_def)
qed

text \<open>
  Claim C3 on a three-row life table, at start age 35 under the protocol: the first two
  entries of the survival sequence.
\<close>

theorem C3_survival_non_increasing_witness:
  "survival (simulateCohort 35 female 50 75 2050 0 demoTable 2024 True 50) ! 0 = 1
   \<and> survival (simulateCohort 35 female 50 75 2050 0 demoTable 2024 True 50) ! Suc 0
       \<le> survival (simulateCohort 35 female 50 75 2050 0 demoTable 2024 True 50) ! 0"
proof -
  have "Suc 0 < length (survival (simulateCohort 35 female 50 75 2050 0 demoTable 2024 True 50))"
    by (rule simulateCohort_two_entries) (simp add: MAX_AGE_INTERNAL_def)
  then show ?thesis
    using C3_survival_non_increasing [OF demoTable_valid, of 35 female 50 75 2050 0 2024 True 50]
    by blast
qed

lemma cohort_body_pace:
  "st_paceArray (cohort_body startAge startScore targetScore horizonYear optimism lifeTable
       currentYear isProtocol progressQuantile levMedian a s)
     = st_paceArray s @
       [if isProtocol
        then getPaceOfAging (currentYear + (a - startAge))
               (if isProtocol \<and> (currentYear + (a - startAge) - currentYear) < 10
                then startScore
                       + (targetScore - startScore) * ((currentYear + (a - startAge) - currentYear) / 10)
                else if isProtocol then targetScore else startScore)
               progressQuantile optimism horizonYear currentYear levMedian
        else getFrailtyMultiplier
               (if isProtocol \<and> (currentYear + (a - startAge) - currentYear) < 10
                then startScore
                       + (targetScore - startScore) * ((currentYear + (a - startAge) - currentYear) / 10)
                else if isProtocol then targetScore else startScore)
             * getProgressMultiplier (currentYear + (a - startAge))
                 (if isProtocol \<and> (currentYear + (a - startAge) - currentYear) < 10
                  then startScore
                         + (targetScore - startScore)
                           * ((currentYear + (a - startAge) - currentYear) / 10)
                  else if isProtocol then targetScore else startScore)
                 50 optimism horizonYear currentYear]"
  unfolding cohort_body_def Let_def CohortState.select_convs
  by (rule refl)

lemma cohort_body_pace_inv:
  assumes scores: "isProtocol \<or> 1 \<le> startScore" and inv: "pace_inv s"
  shows "pace_inv (cohort_body startAge startScore targetScore horizonYear optimism lifeTable
       currentYear isProtocol progressQuantile levMedian a s)"
proof (cases isProtocol)
  case True
  then show ?thesis
    using inv getPaceOfAging_range
    unfolding pace_inv_def cohort_body_pace by simp
next
  case False
  then have "1 \<le> startScore" using scores by simp
  then show ?thesis
    using inv False base_pace_range
    unfolding pace_inv_def cohort_body_pace by simp
qed

lemma pace_inv_result:
  "pace_inv s \<Longrightarrow> \<forall>p \<in> set (st_paceArray s). - (50 / 100) \<le> p \<and> p \<le> 2"
  by (simp add: pace_inv_def)

text \<open>
  Claim C6. Every entry of the pace sequence returned by \<^verbatim>\<open>simulateCohort\<close> lies in
  \<open>[-0.50, 2.00]\<close>: under the protocol by the clamp of \<^verbatim>\<open>getPaceOfAging\<close>, and otherwise,
  for a start score of at least 1, because the frailty multiplier is at most \<open>5/3\<close> and the
  progress multiplier at most \<open>1.20\<close>.
\<close>

theorem C6_pace_range:
  assumes scores: "isProtocol \<or> 1 \<le> startScore"
  shows "\<forall>p \<in> set (pace (simulateCohort startAge sx startScore targetScore horizonYear optimism
             lifeTable currentYear isProtocol progressQuantile)).
           - (50 / 100) \<le> p \<and> p \<le> 2"
  unfolding simulateCohort_def Let_def SimulationResult.select_convs
proof (rule pace_inv_result, rule cohort_loop_invariant)
  fix a s
  assume "pace_inv s"
  with scores show "pace_inv (cohort_body startAge startScore targetScore horizonYear optimism
      lifeTable currentYear isProtocol progressQuantile
      (if isProtocol then medianYear (computeLevDistribution targetScore optimism currentYear)
       else 0) a s)"
    by (rule cohort_body_pace_inv)
next
  show "pace_inv
     \<lparr>st_S = 1, st_B = startAge * getFrailtyMultiplier startScore, st_survival = [1],
        st_annualSurvival =
          [1 - js_default (js_index (qx lifeTable) (js_min startAge (last_age lifeTable)))
                 (1 / 1000)],
        st_bioAge = [startAge * getFrailtyMultiplier startScore],
        st_health = [bioAgeToHealth (startAge * getFrailtyMultiplier startScore)],
        st_aliveHealthy = [1 * bioAgeToHealth (startAge * getFrailtyMultiplier startScore)],
        st_paceArray =
          [if isProtocol
           then getPaceOfAging currentYear targetScore progressQuantile optimism horizonYear
                  currentYear
                  (if isProtocol
                   then medianYear (computeLevDistribution targetScore optimism currentYear)
                   else 0)
           else getFrailtyMultiplier startScore
                  * getProgressMultiplier currentYear startScore 50 optimism horizonYear
                      currentYear]\<rparr>"
  proof (cases isProtocol)
    case True
    then show ?thesis
      using getPaceOfAging_range by (simp add: pace_inv_def)
  next
    case False
    then have "1 \<le> startScore" using scores by simp
    then show ?thesis
      using False base_pace_range by (simp add: pace_inv_def)
  qed
qed

text \<open>Claim C6 at start score 50, without the protocol and under it.\<close>

theorem C6_pace_range_witness:
  "list_all (\<lambda>p. - (50 / 100) \<le> p \<and> p \<le> 2)
     (pace (simulateCohort 35 female 50 75 2050 0 demoTable 2024 False 50))
   \<and> list_all (\<lambda>p. - (50 / 100) \<le> p \<and> p \<le> 2)
     (pace (simulateCohort 35 female 50 75 2050 0 demoTable 2024 True 95))"
proof -
  have a: "False \<or> (1::real) \<le> 50" by simp
  have b: "True \<or> (1::real) \<le> 50" by simp
  show ?thesis
    using C6_pace_range [OF a, of 35 female 75 2050 0 demoTable 2024 50]
      C6_pace_range [OF b, of 35 female 75 2050 0 demoTable 2024 95]
    by (simp only: list_all_iff)
qed

end
